theory Spec2Isabelle
  imports Main "HOL-Library.Multiset" "HOL-Library.Product_Lexorder" "HOL-Library.Word"
begin

section \<open>Customer delivery addresses: the useCustomerAddresses hook and the address form\<close>

text \<open>
  The hook \<^verbatim>\<open>useCustomerAddresses\<close> reads and writes the table
  \<^verbatim>\<open>customer_addresses\<close> of a remote store through request/response calls.
  The table is modelled as the list of its rows, every remote request as a function on
  that list which also records the request in a log, and every exception of the source
  as the left summand of the result.
\<close>

subsection \<open>Rows and inputs\<close>

text \<open>
  Timestamps are points on the time line (\<^typ>\<open>int\<close>): only their order is used, by the
  \<^verbatim>\<open>ORDER BY created_at\<close> of the list query. Identifiers are strings. The
  ward number is an integer column.
\<close>

type_synonym timestamp = int

text \<open>
  The full address is the one text the code looks into (the form trims it), so it is a
  JavaScript string as the language has it: a sequence of 16-bit code units. Of the
  other texts the code asks at most whether they are empty.
\<close>

type_synonym code_unit = "16 word"

type_synonym js_string = "code_unit list"

text \<open>The code units of a text of characters below 256, for writing addresses down.\<close>

definition code_units :: "string \<Rightarrow> js_string" where
  "code_units s = map of_char s"

text \<open>The interface \<^verbatim>\<open>CustomerAddress\<close>; the column \<^verbatim>\<open>id\<close> is \<open>addr_id\<close> here.\<close>

record CustomerAddress =
  addr_id :: string
  user_id :: string
  address_label :: string
  full_address :: js_string
  landmark :: "string option"
  panchayat_id :: "string option"
  ward_number :: "int option"
  is_default :: bool
  created_at :: timestamp
  updated_at :: timestamp

text \<open>
  The interface \<^verbatim>\<open>CreateAddressInput\<close>: an optional property that is absent
  (\<^verbatim>\<open>undefined\<close>) is \<open>None\<close>.
\<close>

record CreateAddressInput =
  in_address_label :: "string option"
  in_full_address :: js_string
  in_landmark :: "string option"
  in_panchayat_id :: "string option"
  in_ward_number :: "int option"
  in_is_default :: "bool option"

text \<open>
  \<^verbatim>\<open>Partial<CreateAddressInput>\<close>, the argument of the update mutation next to the
  row's id: every property is optional.
\<close>

record PartialAddressInput =
  p_address_label :: "string option"
  p_full_address :: "js_string option"
  p_landmark :: "string option"
  p_panchayat_id :: "string option"
  p_ward_number :: "int option"
  p_is_default :: "bool option"

subsection \<open>JavaScript truthiness\<close>

text \<open>
  \<^verbatim>\<open>x || d\<close> is \<open>d\<close> when \<open>x\<close> is falsy: \<^verbatim>\<open>undefined\<close>, the empty
  string, the number 0, \<^verbatim>\<open>false\<close>.
\<close>

definition or_string :: "string option \<Rightarrow> string \<Rightarrow> string" where
  "or_string x d = (case x of None \<Rightarrow> d | Some s \<Rightarrow> if s = [] then d else s)"

definition or_null_string :: "string option \<Rightarrow> string option" where
  "or_null_string x = (case x of None \<Rightarrow> None | Some s \<Rightarrow> if s = [] then None else Some s)"

definition or_null_number :: "int option \<Rightarrow> int option" where
  "or_null_number x = (case x of None \<Rightarrow> None | Some n \<Rightarrow> if n = 0 then None else Some n)"

definition truthy_bool :: "bool option \<Rightarrow> bool" where
  "truthy_bool x = (case x of None \<Rightarrow> False | Some b \<Rightarrow> b)"

text \<open>
  \<^verbatim>\<open>String.prototype.trim\<close> strips white space and line terminators from both
  ends. White space is TAB (U+0009), VT (U+000B), FF (U+000C), the byte order mark
  (U+FEFF) and the space separators U+0020, U+00A0, U+1680, U+2000 to U+200A, U+202F,
  U+205F and U+3000; the line terminators are LF (U+000A), CR (U+000D), U+2028 and
  U+2029. All of them are single code units.
\<close>

definition js_whitespace :: "code_unit \<Rightarrow> bool" where
  "js_whitespace c =
     (unat c \<in> {9, 10, 11, 12, 13, 32, 160, 5760, 8232, 8233, 8239, 8287, 12288, 65279}
      \<or> (8192 \<le> unat c \<and> unat c \<le> 8202))"

definition trim :: "js_string \<Rightarrow> js_string" where
  "trim s = rev (dropWhile js_whitespace (rev (dropWhile js_whitespace s)))"

subsection \<open>The remote store\<close>

text \<open>
  The store is an external collaborator, modelled at its interface. A request either
  reaches the table and is applied, or fails (transport, authorization, constraint) with
  a message and changes nothing: the outcome is the parameter \<open>fault\<close> of each request,
  \<open>None\<close> when the request goes through. Every request issued is appended to \<open>calls\<close>.
\<close>

type_synonym fault = "string option"

datatype call =
    CallSelect string
  | CallClearDefaults string "string option"
  | CallInsert string
  | CallUpdateRow string string
  | CallDelete string string

datatype error =
    NotAuthenticated
  | NoSingleRow
  | RequestFailed string

record world =
  rows :: "CustomerAddress list"
  calls :: "call list"

definition issue :: "call \<Rightarrow> world \<Rightarrow> world" where
  "issue c w = w\<lparr>calls := calls w @ [c]\<rparr>"

text \<open>\<^verbatim>\<open>.update(patch).eq(...)\<close>: every row that passes the filter is patched.\<close>

definition remote_update ::
  "call \<Rightarrow> (CustomerAddress \<Rightarrow> CustomerAddress) \<Rightarrow> (CustomerAddress \<Rightarrow> bool) \<Rightarrow> fault \<Rightarrow> world
    \<Rightarrow> fault \<times> world" where
  "remote_update c patch flt f w =
     (case f of
        Some msg \<Rightarrow> (Some msg, issue c w)
      | None \<Rightarrow> (None, issue c (w\<lparr>rows := map (\<lambda>r. if flt r then patch r else r) (rows w)\<rparr>)))"

text \<open>
  \<^verbatim>\<open>.update(patch).eq(...).select().single()\<close>: the answer is the patched row when
  exactly one row passes the filter; otherwise the store answers with its
  not-exactly-one-row error and the statement is rolled back.
\<close>

definition remote_update_single ::
  "call \<Rightarrow> (CustomerAddress \<Rightarrow> CustomerAddress) \<Rightarrow> (CustomerAddress \<Rightarrow> bool) \<Rightarrow> fault \<Rightarrow> world
    \<Rightarrow> (error + CustomerAddress) \<times> world" where
  "remote_update_single c patch flt f w =
     (case f of
        Some msg \<Rightarrow> (Inl (RequestFailed msg), issue c w)
      | None \<Rightarrow>
          (case filter flt (rows w) of
             [r] \<Rightarrow> (Inr (patch r),
                     issue c (w\<lparr>rows := map (\<lambda>r. if flt r then patch r else r) (rows w)\<rparr>))
           | _ \<Rightarrow> (Inl NoSingleRow, issue c w)))"

text \<open>\<^verbatim>\<open>.insert(row).select().single()\<close>: the new row is appended and returned.\<close>

definition remote_insert_single ::
  "call \<Rightarrow> CustomerAddress \<Rightarrow> fault \<Rightarrow> world \<Rightarrow> (error + CustomerAddress) \<times> world" where
  "remote_insert_single c r f w =
     (case f of
        Some msg \<Rightarrow> (Inl (RequestFailed msg), issue c w)
      | None \<Rightarrow> (Inr r, issue c (w\<lparr>rows := rows w @ [r]\<rparr>)))"

text \<open>\<^verbatim>\<open>.delete().eq(...)\<close>: the rows that pass the filter are removed; none is no error.\<close>

definition remote_delete :: "call \<Rightarrow> (CustomerAddress \<Rightarrow> bool) \<Rightarrow> fault \<Rightarrow> world \<Rightarrow> fault \<times> world" where
  "remote_delete c flt f w =
     (case f of
        Some msg \<Rightarrow> (Some msg, issue c w)
      | None \<Rightarrow> (None, issue c (w\<lparr>rows := filter (\<lambda>r. \<not> flt r) (rows w)\<rparr>)))"

text \<open>
  \<^verbatim>\<open>.select('*').eq(...).order('is_default', desc).order('created_at', desc)\<close>:
  the sort key of a row is the pair (not default, minus creation time) in
  lexicographic order, so that \<^verbatim>\<open>true\<close> comes before \<^verbatim>\<open>false\<close> and a later
  creation time before an earlier one.
\<close>

definition order_key :: "CustomerAddress \<Rightarrow> bool \<times> int" where
  "order_key r = (\<not> is_default r, - created_at r)"

definition remote_select ::
  "call \<Rightarrow> (CustomerAddress \<Rightarrow> bool) \<Rightarrow> fault \<Rightarrow> world \<Rightarrow> (error + CustomerAddress list) \<times> world" where
  "remote_select c flt f w =
     (case f of
        Some msg \<Rightarrow> (Inl (RequestFailed msg), issue c w)
      | None \<Rightarrow> (Inr (sort_key order_key (filter flt (rows w))), issue c w))"

subsection \<open>The hook\<close>

text \<open>
  \<open>user\<close> is \<^verbatim>\<open>useAuth().user?.id\<close>: \<open>None\<close> when nobody is signed in. \<open>now\<close> is the
  clock read by \<^verbatim>\<open>new Date()\<close> (or by the store's \<^verbatim>\<open>now()\<close> default on insert),
  \<open>new_id\<close> the identifier the store generates for an inserted row.
\<close>

text \<open>The query function of \<^verbatim>\<open>useQuery(['customer-addresses', user?.id])\<close>.\<close>

definition listAddresses ::
  "string option \<Rightarrow> fault \<Rightarrow> world \<Rightarrow> (error + CustomerAddress list) \<times> world" where
  "listAddresses user f w =
     (case user of
        None \<Rightarrow> (Inr [], w)
      | Some uid \<Rightarrow> remote_select (CallSelect uid) (\<lambda>r. user_id r = uid) f w)"

text \<open>
  The row stored by the insert of \<^verbatim>\<open>createAddressMutation\<close>: the object the
  mutation builds, completed by the store with the generated id and the two timestamps.
\<close>

definition insert_row :: "string \<Rightarrow> string \<Rightarrow> timestamp \<Rightarrow> CreateAddressInput \<Rightarrow> CustomerAddress" where
  "insert_row uid new_id now input =
     \<lparr> addr_id = new_id,
       user_id = uid,
       address_label = or_string (in_address_label input) ''Home'',
       full_address = in_full_address input,
       landmark = or_null_string (in_landmark input),
       panchayat_id = or_null_string (in_panchayat_id input),
       ward_number = or_null_number (in_ward_number input),
       is_default = truthy_bool (in_is_default input),
       created_at = now,
       updated_at = now \<rparr>"

definition clear_default :: "CustomerAddress \<Rightarrow> CustomerAddress" where
  "clear_default r = r\<lparr>is_default := False\<rparr>"

text \<open>
  \<^verbatim>\<open>createAddressMutation.mutationFn\<close>. The answer of the first request is awaited
  and dropped; only the insert's error is thrown.
\<close>

definition createAddress ::
  "string option \<Rightarrow> CreateAddressInput \<Rightarrow> fault \<Rightarrow> fault \<Rightarrow> string \<Rightarrow> timestamp \<Rightarrow> world
    \<Rightarrow> (error + CustomerAddress) \<times> world" where
  "createAddress user input f_clear f_insert new_id now w =
     (case user of
        None \<Rightarrow> (Inl NotAuthenticated, w)
      | Some uid \<Rightarrow>
          (let w1 = (if truthy_bool (in_is_default input)
                     then snd (remote_update (CallClearDefaults uid None) clear_default
                                 (\<lambda>r. user_id r = uid) f_clear w)
                     else w)
           in remote_insert_single (CallInsert uid) (insert_row uid new_id now input) f_insert w1))"

text \<open>
  The patch \<^verbatim>\<open>{ ...input, updated_at: new Date().toISOString() }\<close>: a property that
  is absent leaves its column as it is.
\<close>

definition update_patch :: "PartialAddressInput \<Rightarrow> timestamp \<Rightarrow> CustomerAddress \<Rightarrow> CustomerAddress" where
  "update_patch input now r =
     r\<lparr> address_label := (case p_address_label input of None \<Rightarrow> address_label r | Some s \<Rightarrow> s),
        full_address := (case p_full_address input of None \<Rightarrow> full_address r | Some s \<Rightarrow> s),
        landmark := (case p_landmark input of None \<Rightarrow> landmark r | Some s \<Rightarrow> Some s),
        panchayat_id := (case p_panchayat_id input of None \<Rightarrow> panchayat_id r | Some s \<Rightarrow> Some s),
        ward_number := (case p_ward_number input of None \<Rightarrow> ward_number r | Some n \<Rightarrow> Some n),
        is_default := (case p_is_default input of None \<Rightarrow> is_default r | Some b \<Rightarrow> b),
        updated_at := now \<rparr>"

text \<open>The first request of \<^verbatim>\<open>updateAddressMutation.mutationFn\<close>, when the input asks for the default.\<close>

definition updateAddress_clear :: "string \<Rightarrow> string \<Rightarrow> PartialAddressInput \<Rightarrow> fault \<Rightarrow> world \<Rightarrow> world" where
  "updateAddress_clear uid aid input f_clear w =
     (if truthy_bool (p_is_default input)
      then snd (remote_update (CallClearDefaults uid (Some aid)) clear_default
                  (\<lambda>r. user_id r = uid \<and> addr_id r \<noteq> aid) f_clear w)
      else w)"

text \<open>\<^verbatim>\<open>updateAddressMutation.mutationFn\<close>.\<close>

definition updateAddress ::
  "string option \<Rightarrow> string \<Rightarrow> PartialAddressInput \<Rightarrow> fault \<Rightarrow> fault \<Rightarrow> timestamp \<Rightarrow> world
    \<Rightarrow> (error + CustomerAddress) \<times> world" where
  "updateAddress user aid input f_clear f_update now w =
     (case user of
        None \<Rightarrow> (Inl NotAuthenticated, w)
      | Some uid \<Rightarrow>
          remote_update_single (CallUpdateRow aid uid) (update_patch input now)
            (\<lambda>r. addr_id r = aid \<and> user_id r = uid) f_update
            (updateAddress_clear uid aid input f_clear w))"

text \<open>\<^verbatim>\<open>deleteAddressMutation.mutationFn\<close>.\<close>

definition deleteAddress :: "string option \<Rightarrow> string \<Rightarrow> fault \<Rightarrow> world \<Rightarrow> (error + unit) \<times> world" where
  "deleteAddress user aid f w =
     (case user of
        None \<Rightarrow> (Inl NotAuthenticated, w)
      | Some uid \<Rightarrow>
          (case remote_delete (CallDelete aid uid) (\<lambda>r. addr_id r = aid \<and> user_id r = uid) f w of
             (Some msg, w') \<Rightarrow> (Inl (RequestFailed msg), w')
           | (None, w') \<Rightarrow> (Inr (), w')))"

definition set_default_patch :: "timestamp \<Rightarrow> CustomerAddress \<Rightarrow> CustomerAddress" where
  "set_default_patch now r = r\<lparr>is_default := True, updated_at := now\<rparr>"

text \<open>
  \<^verbatim>\<open>setDefaultAddressMutation.mutationFn\<close>. As in the create mutation, the answer of
  the first request is dropped.
\<close>

definition setDefaultAddress ::
  "string option \<Rightarrow> string \<Rightarrow> fault \<Rightarrow> fault \<Rightarrow> timestamp \<Rightarrow> world \<Rightarrow> (error + unit) \<times> world" where
  "setDefaultAddress user aid f_clear f_set now w =
     (case user of
        None \<Rightarrow> (Inl NotAuthenticated, w)
      | Some uid \<Rightarrow>
          (let w1 = snd (remote_update (CallClearDefaults uid None) clear_default
                           (\<lambda>r. user_id r = uid) f_clear w)
           in case remote_update (CallUpdateRow aid uid) (set_default_patch now)
                     (\<lambda>r. addr_id r = aid \<and> user_id r = uid) f_set w1 of
                (Some msg, w2) \<Rightarrow> (Inl (RequestFailed msg), w2)
              | (None, w2) \<Rightarrow> (Inr (), w2)))"

text \<open>
  \<^verbatim>\<open>addresses?.find(a => a.is_default) || addresses?.[0]\<close>, the hook's
  \<^verbatim>\<open>defaultAddress\<close> and the initial selection of the address form.
\<close>

definition deriveInitialSelection :: "CustomerAddress list \<Rightarrow> CustomerAddress option" where
  "deriveInitialSelection addresses =
     (case find is_default addresses of
        Some a \<Rightarrow> Some a
      | None \<Rightarrow> (case addresses of [] \<Rightarrow> None | a # _ \<Rightarrow> Some a))"

subsection \<open>The address form\<close>

text \<open>
  The state of the component \<^verbatim>\<open>AddressSelector\<close> that \<^verbatim>\<open>handleSaveAddress\<close>
  reads: the form fields, the address being edited (none when a new one is added) and
  the location context. The source's state variable \<^verbatim>\<open>landmark\<close> is \<open>landmarkText\<close> here.
\<close>

record FormState =
  addressLabel :: string
  fullAddress :: js_string
  landmarkText :: string
  isDefault :: bool
  editingAddress :: "CustomerAddress option"
  selectedPanchayatId :: "string option"
  selectedWardNumber :: "int option"

text \<open>\<^verbatim>\<open>x || undefined\<close> on a string and on a number.\<close>

definition or_undefined_string :: "string \<Rightarrow> string option" where
  "or_undefined_string s = (if s = [] then None else Some s)"

definition addressData :: "FormState \<Rightarrow> CreateAddressInput" where
  "addressData form =
     \<lparr> in_address_label = Some (addressLabel form),
       in_full_address = fullAddress form,
       in_landmark = or_undefined_string (landmarkText form),
       in_panchayat_id = selectedPanchayatId form,
       in_ward_number = or_null_number (selectedWardNumber form),
       in_is_default = Some (isDefault form) \<rparr>"

text \<open>\<^verbatim>\<open>{ id: editingAddress.id, ...addressData }\<close> without its id.\<close>

definition as_partial :: "CreateAddressInput \<Rightarrow> PartialAddressInput" where
  "as_partial d =
     \<lparr> p_address_label = in_address_label d,
       p_full_address = Some (in_full_address d),
       p_landmark = in_landmark d,
       p_panchayat_id = in_panchayat_id d,
       p_ward_number = in_ward_number d,
       p_is_default = in_is_default d \<rparr>"

text \<open>
  What the user is shown: the destructive notification \<^verbatim>\<open>Address required\<close>, or the
  settled mutation (its \<^verbatim>\<open>onSuccess\<close> or \<^verbatim>\<open>onError\<close> notification).
\<close>

datatype save_outcome =
    AddressRequired
  | Settled "error + CustomerAddress"

text \<open>
  \<^verbatim>\<open>handleSaveAddress\<close>, with the mutation it starts run to its end. Closing the
  dialog and resetting the form fields are left out: they touch neither the store nor
  the outcome.
\<close>

definition handleSaveAddress ::
  "string option \<Rightarrow> FormState \<Rightarrow> fault \<Rightarrow> fault \<Rightarrow> string \<Rightarrow> timestamp \<Rightarrow> world
    \<Rightarrow> save_outcome \<times> world" where
  "handleSaveAddress user form f_clear f_write new_id now w =
     (if trim (fullAddress form) = [] then (AddressRequired, w)
      else
        (case editingAddress form of
           Some a \<Rightarrow>
             (case updateAddress user (addr_id a) (as_partial (addressData form))
                     f_clear f_write now w of
                (res, w') \<Rightarrow> (Settled res, w'))
         | None \<Rightarrow>
             (case createAddress user (addressData form) f_clear f_write new_id now w of
                (res, w') \<Rightarrow> (Settled res, w'))))"

subsection \<open>The properties the specification's words name\<close>

text \<open>At most one row of the owner is flagged as the default.\<close>

definition at_most_one_default :: "string \<Rightarrow> CustomerAddress list \<Rightarrow> bool" where
  "at_most_one_default uid rs = (length (filter (\<lambda>r. user_id r = uid \<and> is_default r) rs) \<le> 1)"

text \<open>
  The order of the specification's \<^verbatim>\<open>list\<close>: default-flagged addresses first, then by
  creation time descending.
\<close>

definition default_first_then_newest :: "CustomerAddress \<Rightarrow> CustomerAddress \<Rightarrow> bool" where
  "default_first_then_newest a b =
     ((is_default a \<and> \<not> is_default b) \<or> (is_default a = is_default b \<and> created_at b \<le> created_at a))"

definition whitespace_only :: "js_string \<Rightarrow> bool" where
  "whitespace_only s = list_all js_whitespace s"

subsection \<open>Example rows\<close>

text \<open>A row with the given id, owner, default flag and creation time, for the concrete checks.\<close>

definition example_address :: "string \<Rightarrow> string \<Rightarrow> bool \<Rightarrow> timestamp \<Rightarrow> CustomerAddress" where
  "example_address i u d t =
     \<lparr> addr_id = i, user_id = u, address_label = ''Home'', full_address = code_units ''12 Palm Rd'',
       landmark = None, panchayat_id = None, ward_number = None, is_default = d,
       created_at = t, updated_at = t \<rparr>"

section \<open>Basic facts about the store\<close>

lemma calls_issue [simp]: "calls (issue c w) = calls w @ [c]"
  by (simp add: issue_def)

lemma rows_issue [simp]: "rows (issue c w) = rows w"
  by (simp add: issue_def)

lemma rows_remote_update:
  "rows (snd (remote_update c patch flt f w)) =
     (case f of Some msg \<Rightarrow> rows w | None \<Rightarrow> map (\<lambda>r. if flt r then patch r else r) (rows w))"
  by (simp add: remote_update_def split: option.split)

lemma calls_remote_update [simp]:
  "calls (snd (remote_update c patch flt f w)) = calls w @ [c]"
  by (simp add: remote_update_def split: option.split)

lemma fst_remote_update [simp]: "fst (remote_update c patch flt f w) = f"
  by (simp add: remote_update_def split: option.split)

lemma trim_whitespace_only:
  assumes "whitespace_only s"
  shows "trim s = []"
proof -
  have blank: "dropWhile js_whitespace s = []"
    using assms by (simp add: whitespace_only_def list_all_iff)
  show ?thesis
    by (simp only: trim_def blank rev.simps dropWhile.simps)
qed

section \<open>The initial selection\<close>

lemma find_unique_index:
  assumes "i < length xs" and "P (xs ! i)" and "\<forall>j<length xs. j \<noteq> i \<longrightarrow> \<not> P (xs ! j)"
  shows "find P xs = Some (xs ! i)"
proof -
  have "\<forall>j<i. \<not> P (xs ! j)"
    using assms(1,3) by auto
  with assms(1,2) show ?thesis
    unfolding find_Some_iff by blast
qed

text \<open>
  Claim C6. The initial selection is none on the empty sequence; it is the default-flagged
  element, wherever it stands, when exactly one element is flagged; it is the first
  element when no element is flagged. It is a function of the sequence alone: it takes
  no store and issues no request.
\<close>

theorem deriveInitialSelection_spec:
  "deriveInitialSelection [] = None \<and>
   (\<forall>i<length xs. is_default (xs ! i) \<and> (\<forall>j<length xs. j \<noteq> i \<longrightarrow> \<not> is_default (xs ! j))
       \<longrightarrow> deriveInitialSelection xs = Some (xs ! i)) \<and>
   (xs \<noteq> [] \<and> (\<forall>a\<in>set xs. \<not> is_default a) \<longrightarrow> deriveInitialSelection xs = Some (hd xs))"
proof (intro conjI allI impI)
  show "deriveInitialSelection [] = None"
    by (simp add: deriveInitialSelection_def)
next
  fix i
  assume "i < length xs"
    and "is_default (xs ! i) \<and> (\<forall>j<length xs. j \<noteq> i \<longrightarrow> \<not> is_default (xs ! j))"
  then have "find is_default xs = Some (xs ! i)"
    by (intro find_unique_index) auto
  then show "deriveInitialSelection xs = Some (xs ! i)"
    by (simp add: deriveInitialSelection_def)
next
  assume h: "xs \<noteq> [] \<and> (\<forall>a\<in>set xs. \<not> is_default a)"
  then have "find is_default xs = None"
    by (simp add: find_None_iff)
  with h show "deriveInitialSelection xs = Some (hd xs)"
    by (cases xs) (simp_all add: deriveInitialSelection_def)
qed

theorem deriveInitialSelection_spec_witness:
  "deriveInitialSelection
     [example_address ''a'' ''u1'' False 1, example_address ''b'' ''u1'' True 2,
      example_address ''c'' ''u1'' False 3] = Some (example_address ''b'' ''u1'' True 2) \<and>
   deriveInitialSelection [example_address ''a'' ''u1'' False 1, example_address ''c'' ''u1'' False 3]
     = Some (example_address ''a'' ''u1'' False 1) \<and>
   deriveInitialSelection [] = None"
proof -
  let ?a = "example_address ''a'' ''u1'' False 1"
  let ?b = "example_address ''b'' ''u1'' True 2"
  let ?c = "example_address ''c'' ''u1'' False 3"
  have flags: "\<not> is_default ?a" "is_default ?b" "\<not> is_default ?c"
    by (simp_all add: example_address_def)
  have len: "(1::nat) < length [?a, ?b, ?c]"
    by simp
  have others: "\<forall>j<length [?a, ?b, ?c]. j \<noteq> 1 \<longrightarrow> \<not> is_default ([?a, ?b, ?c] ! j)"
    using flags by (simp add: less_Suc_eq nth_Cons')
  have "is_default ([?a, ?b, ?c] ! 1)"
    using flags by simp
  with len others have "deriveInitialSelection [?a, ?b, ?c] = Some ([?a, ?b, ?c] ! 1)"
    using deriveInitialSelection_spec [of "[?a, ?b, ?c]"] by blast
  then have first: "deriveInitialSelection [?a, ?b, ?c] = Some ?b"
    by simp
  have "[?a, ?c] \<noteq> [] \<and> (\<forall>x\<in>set [?a, ?c]. \<not> is_default x)"
    using flags by simp
  then have "deriveInitialSelection [?a, ?c] = Some (hd [?a, ?c])"
    using deriveInitialSelection_spec [of "[?a, ?c]"] by blast
  then have second: "deriveInitialSelection [?a, ?c] = Some ?a"
    by simp
  have "deriveInitialSelection [] = None"
    using deriveInitialSelection_spec [of "[]"] by blast
  with first second show ?thesis
    by blast
qed

section \<open>What the create mutation stores\<close>

text \<open>
  Claim C10. The create mutation coerces falsy optional inputs before the insert: a ward
  number 0 is stored as null, an empty landmark as null, an empty label as \<^verbatim>\<open>Home\<close>;
  the row read back differs from the input on these values. The insert is reached and
  answers with the stored row whatever the clear-defaults request did.
\<close>

theorem createAddress_coerces_falsy:
  "\<exists>r. fst (createAddress (Some uid) input f_clear None new_id now w) = Inr r \<and>
        r \<in> set (rows (snd (createAddress (Some uid) input f_clear None new_id now w))) \<and>
        (in_ward_number input = Some 0 \<longrightarrow> ward_number r = None \<and> ward_number r \<noteq> in_ward_number input) \<and>
        (in_landmark input = Some [] \<longrightarrow> landmark r = None \<and> landmark r \<noteq> in_landmark input) \<and>
        (in_address_label input = Some [] \<longrightarrow>
           address_label r = ''Home'' \<and> Some (address_label r) \<noteq> in_address_label input)"
  by (simp add: createAddress_def remote_insert_single_def insert_row_def Let_def
      or_null_number_def or_null_string_def or_string_def)

theorem createAddress_coerces_falsy_witness:
  "\<exists>r. fst (createAddress (Some ''u1'')
              \<lparr> in_address_label = Some [], in_full_address = code_units ''12 Palm Rd'', in_landmark = Some [],
                in_panchayat_id = None, in_ward_number = Some 0, in_is_default = None \<rparr>
              None None ''a1'' 7 \<lparr> rows = [], calls = [] \<rparr>) = Inr r \<and>
        ward_number r = None \<and> landmark r = None \<and> address_label r = ''Home''"
  using createAddress_coerces_falsy [of "''u1''"
      "\<lparr> in_address_label = Some [], in_full_address = code_units ''12 Palm Rd'', in_landmark = Some [],
         in_panchayat_id = None, in_ward_number = Some 0, in_is_default = None \<rparr>"
      None "''a1''" 7 "\<lparr> rows = [], calls = [] \<rparr>"]
  by auto

section \<open>The answer of the clear-defaults request\<close>

text \<open>
  Claim C9. In the create and set-default mutations a failure of the first
  (clear-defaults) request is ignored: the second request is issued all the same, the
  mutation's result is the one it has when the first request went through, and it is a
  success exactly when the second request succeeds; an error surfaced is the second
  request's.
\<close>

theorem clear_failure_is_ignored:
  "fst (createAddress (Some uid) input (Some msg) f_insert new_id now w) =
     (case f_insert of None \<Rightarrow> Inr (insert_row uid new_id now input)
                     | Some m \<Rightarrow> Inl (RequestFailed m)) \<and>
   fst (createAddress (Some uid) input (Some msg) f_insert new_id now w) =
     fst (createAddress (Some uid) input None f_insert new_id now w) \<and>
   calls (snd (createAddress (Some uid) input (Some msg) f_insert new_id now w)) =
     calls w @ (if truthy_bool (in_is_default input) then [CallClearDefaults uid None] else [])
       @ [CallInsert uid] \<and>
   fst (setDefaultAddress (Some uid) aid (Some msg) f_set now w) =
     (case f_set of None \<Rightarrow> Inr () | Some m \<Rightarrow> Inl (RequestFailed m)) \<and>
   fst (setDefaultAddress (Some uid) aid (Some msg) f_set now w) =
     fst (setDefaultAddress (Some uid) aid None f_set now w) \<and>
   calls (snd (setDefaultAddress (Some uid) aid (Some msg) f_set now w)) =
     calls w @ [CallClearDefaults uid None, CallUpdateRow aid uid]"
  by (simp add: createAddress_def setDefaultAddress_def remote_insert_single_def
      remote_update_def Let_def split: option.split)

theorem clear_failure_is_ignored_witness:
  "fst (createAddress (Some ''u1'')
          \<lparr> in_address_label = None, in_full_address = code_units ''12 Palm Rd'', in_landmark = None,
            in_panchayat_id = None, in_ward_number = None, in_is_default = Some True \<rparr>
          (Some ''Failed to fetch'') None ''B'' 2
          \<lparr> rows = [example_address ''A'' ''u1'' True 1], calls = [] \<rparr>)
     = Inr (example_address ''B'' ''u1'' True 2) \<and>
   fst (setDefaultAddress (Some ''u1'') ''A'' (Some ''Failed to fetch'') None 2
          \<lparr> rows = [example_address ''A'' ''u1'' True 1], calls = [] \<rparr>) = Inr () \<and>
   fst (setDefaultAddress (Some ''u1'') ''A'' (Some ''Failed to fetch'') (Some ''timeout'') 2
          \<lparr> rows = [example_address ''A'' ''u1'' True 1], calls = [] \<rparr>)
     = Inl (RequestFailed ''timeout'')"
  using
    clear_failure_is_ignored [of "''u1''"
      "\<lparr> in_address_label = None, in_full_address = code_units ''12 Palm Rd'', in_landmark = None,
         in_panchayat_id = None, in_ward_number = None, in_is_default = Some True \<rparr>"
      "''Failed to fetch''" None "''B''" 2
      "\<lparr> rows = [example_address ''A'' ''u1'' True 1], calls = [] \<rparr>" "''A''" None]
    clear_failure_is_ignored [of "''u1''"
      "\<lparr> in_address_label = None, in_full_address = code_units ''12 Palm Rd'', in_landmark = None,
         in_panchayat_id = None, in_ward_number = None, in_is_default = Some True \<rparr>"
      "''Failed to fetch''" None "''B''" 2
      "\<lparr> rows = [example_address ''A'' ''u1'' True 1], calls = [] \<rparr>" "''A''"
      "Some ''timeout''"]
  by (simp add: insert_row_def example_address_def truthy_bool_def or_string_def
      or_null_string_def or_null_number_def)

section \<open>The update mutation\<close>

lemma length_rows_updateAddress_clear:
  "length (rows (updateAddress_clear uid aid input f_clear w)) = length (rows w)"
  by (simp add: updateAddress_clear_def rows_remote_update split: option.split)

lemma nth_rows_updateAddress_clear:
  assumes "i < length (rows w)"
  shows "rows (updateAddress_clear uid aid input f_clear w) ! i =
     (if truthy_bool (p_is_default input) \<and> f_clear = None \<and>
         user_id (rows w ! i) = uid \<and> addr_id (rows w ! i) \<noteq> aid
      then clear_default (rows w ! i) else rows w ! i)"
  using assms by (simp add: updateAddress_clear_def rows_remote_update split: option.split)

text \<open>
  Claim C5. When the update's input asks for the default, the clear-defaults request
  changes only is-default, only on rows of the owner other than the target: the target
  row leaves that step as it entered it, so it is never cleared and then set again.
  When the request goes through, every other row of the owner is cleared.
\<close>

theorem updateAddress_clear_excludes_target:
  assumes "p_is_default input = Some True"
  shows "length (rows (updateAddress_clear uid aid input f_clear w)) = length (rows w) \<and>
    calls (updateAddress_clear uid aid input f_clear w) = calls w @ [CallClearDefaults uid (Some aid)] \<and>
    (\<forall>i<length (rows w).
       (addr_id (rows w ! i) = aid \<longrightarrow>
          rows (updateAddress_clear uid aid input f_clear w) ! i = rows w ! i) \<and>
       (rows (updateAddress_clear uid aid input f_clear w) ! i \<noteq> rows w ! i \<longrightarrow>
          user_id (rows w ! i) = uid \<and> addr_id (rows w ! i) \<noteq> aid \<and>
          rows (updateAddress_clear uid aid input f_clear w) ! i = (rows w ! i)\<lparr>is_default := False\<rparr>) \<and>
       (f_clear = None \<and> user_id (rows w ! i) = uid \<and> addr_id (rows w ! i) \<noteq> aid \<longrightarrow>
          \<not> is_default (rows (updateAddress_clear uid aid input f_clear w) ! i)))"
proof (intro conjI allI impI)
  show "length (rows (updateAddress_clear uid aid input f_clear w)) = length (rows w)"
    by (rule length_rows_updateAddress_clear)
  show "calls (updateAddress_clear uid aid input f_clear w) = calls w @ [CallClearDefaults uid (Some aid)]"
    using assms by (simp add: updateAddress_clear_def truthy_bool_def)
next
  fix i assume "i < length (rows w)" and "addr_id (rows w ! i) = aid"
  then show "rows (updateAddress_clear uid aid input f_clear w) ! i = rows w ! i"
    by (simp add: nth_rows_updateAddress_clear)
next
  fix i assume i: "i < length (rows w)"
    and changed: "rows (updateAddress_clear uid aid input f_clear w) ! i \<noteq> rows w ! i"
  from i changed show "user_id (rows w ! i) = uid"
    by (simp add: nth_rows_updateAddress_clear split: if_splits)
  from i changed show "addr_id (rows w ! i) \<noteq> aid"
    by (simp add: nth_rows_updateAddress_clear split: if_splits)
  from i changed show "rows (updateAddress_clear uid aid input f_clear w) ! i = (rows w ! i)\<lparr>is_default := False\<rparr>"
    by (simp add: nth_rows_updateAddress_clear clear_default_def split: if_splits)
next
  fix i assume "i < length (rows w)"
    and "f_clear = None \<and> user_id (rows w ! i) = uid \<and> addr_id (rows w ! i) \<noteq> aid"
  then show "\<not> is_default (rows (updateAddress_clear uid aid input f_clear w) ! i)"
    using assms by (simp add: nth_rows_updateAddress_clear clear_default_def truthy_bool_def)
qed

theorem updateAddress_clear_excludes_target_witness:
  "p_is_default \<lparr> p_address_label = None, p_full_address = None, p_landmark = None,
       p_panchayat_id = None, p_ward_number = None, p_is_default = Some True \<rparr> = Some True \<and>
   rows (updateAddress_clear ''u1'' ''a''
          \<lparr> p_address_label = None, p_full_address = None, p_landmark = None,
            p_panchayat_id = None, p_ward_number = None, p_is_default = Some True \<rparr> None
          \<lparr> rows = [example_address ''a'' ''u1'' True 1, example_address ''b'' ''u1'' True 2],
            calls = [] \<rparr>) ! 0 = example_address ''a'' ''u1'' True 1 \<and>
   \<not> is_default (rows (updateAddress_clear ''u1'' ''a''
          \<lparr> p_address_label = None, p_full_address = None, p_landmark = None,
            p_panchayat_id = None, p_ward_number = None, p_is_default = Some True \<rparr> None
          \<lparr> rows = [example_address ''a'' ''u1'' True 1, example_address ''b'' ''u1'' True 2],
            calls = [] \<rparr>) ! 1)"
proof -
  let ?inp = "\<lparr> p_address_label = None, p_full_address = None, p_landmark = None,
       p_panchayat_id = None, p_ward_number = None, p_is_default = Some True \<rparr>"
  let ?w = "\<lparr> rows = [example_address ''a'' ''u1'' True 1, example_address ''b'' ''u1'' True 2],
            calls = [] \<rparr>"
  have asked: "p_is_default ?inp = Some True"
    by simp
  note spec = updateAddress_clear_excludes_target [OF asked, of "''u1''" "''a''" None ?w]
  have "0 < length (rows ?w)" and "addr_id (rows ?w ! 0) = ''a''"
    by (simp_all add: example_address_def)
  with spec have "rows (updateAddress_clear ''u1'' ''a'' ?inp None ?w) ! 0 = rows ?w ! 0"
    by blast
  then have target: "rows (updateAddress_clear ''u1'' ''a'' ?inp None ?w) ! 0
      = example_address ''a'' ''u1'' True 1"
    by simp
  have "1 < length (rows ?w)" and "user_id (rows ?w ! 1) = ''u1''" and "addr_id (rows ?w ! 1) \<noteq> ''a''"
    by (simp_all add: example_address_def)
  with spec have "\<not> is_default (rows (updateAddress_clear ''u1'' ''a'' ?inp None ?w) ! 1)"
    by blast
  with asked target show ?thesis
    by blast
qed

lemma filter_target_updateAddress_clear:
  "filter (\<lambda>r. addr_id r = aid \<and> user_id r = uid) (rows (updateAddress_clear uid aid input f_clear w))
     = filter (\<lambda>r. addr_id r = aid \<and> user_id r = uid) (rows w)"
proof -
  have "filter (\<lambda>r. addr_id r = aid \<and> user_id r = uid)
          (map (\<lambda>r. if user_id r = uid \<and> addr_id r \<noteq> aid then clear_default r else r) rs)
        = filter (\<lambda>r. addr_id r = aid \<and> user_id r = uid) rs" for rs
    by (induction rs) (simp_all add: clear_default_def)
  then show ?thesis
    by (simp add: updateAddress_clear_def rows_remote_update split: option.split)
qed

text \<open>
  Claim C7. An update whose address id resolves to no row of the owner (a row of another
  owner included) fails: with the store's no-row error when the final request reaches
  the store, with the request's failure otherwise. The final update request modifies no
  row: the table is as the clear-defaults step left it, and as it was before the call
  when the input did not ask for the default.
\<close>

theorem updateAddress_not_owned:
  assumes "\<forall>r\<in>set (rows w). \<not> (addr_id r = aid \<and> user_id r = uid)"
  shows "(\<exists>e. fst (updateAddress (Some uid) aid input f_clear f_update now w) = Inl e) \<and>
    (f_update = None \<longrightarrow> fst (updateAddress (Some uid) aid input f_clear f_update now w) = Inl NoSingleRow) \<and>
    rows (snd (updateAddress (Some uid) aid input f_clear f_update now w))
      = rows (updateAddress_clear uid aid input f_clear w) \<and>
    (\<not> truthy_bool (p_is_default input) \<longrightarrow>
       rows (snd (updateAddress (Some uid) aid input f_clear f_update now w)) = rows w)"
proof -
  have "filter (\<lambda>r. addr_id r = aid \<and> user_id r = uid) (rows w) = []"
    using assms by (simp add: filter_empty_conv)
  then have none: "filter (\<lambda>r. addr_id r = aid \<and> user_id r = uid)
      (rows (updateAddress_clear uid aid input f_clear w)) = []"
    by (simp add: filter_target_updateAddress_clear)
  have plain: "\<not> truthy_bool (p_is_default input) \<Longrightarrow> updateAddress_clear uid aid input f_clear w = w"
    by (simp add: updateAddress_clear_def)
  have kept: "rows (snd (updateAddress (Some uid) aid input f_clear f_update now w))
      = rows (updateAddress_clear uid aid input f_clear w)"
    using none by (cases f_update) (simp_all add: updateAddress_def remote_update_single_def)
  have fails: "\<exists>e. fst (updateAddress (Some uid) aid input f_clear f_update now w) = Inl e"
    using none by (cases f_update) (simp_all add: updateAddress_def remote_update_single_def)
  have not_found: "f_update = None \<longrightarrow>
      fst (updateAddress (Some uid) aid input f_clear f_update now w) = Inl NoSingleRow"
    using none by (simp add: updateAddress_def remote_update_single_def)
  from kept fails not_found plain show ?thesis
    by simp
qed

theorem updateAddress_not_owned_witness:
  "fst (updateAddress (Some ''u1'') ''b1''
          \<lparr> p_address_label = Some ''Work'', p_full_address = None, p_landmark = None,
            p_panchayat_id = None, p_ward_number = None, p_is_default = None \<rparr>
          None None 9 \<lparr> rows = [example_address ''b1'' ''u2'' False 1], calls = [] \<rparr>)
     = Inl NoSingleRow \<and>
   rows (snd (updateAddress (Some ''u1'') ''b1''
          \<lparr> p_address_label = Some ''Work'', p_full_address = None, p_landmark = None,
            p_panchayat_id = None, p_ward_number = None, p_is_default = None \<rparr>
          None None 9 \<lparr> rows = [example_address ''b1'' ''u2'' False 1], calls = [] \<rparr>))
     = [example_address ''b1'' ''u2'' False 1]"
proof -
  let ?inp = "\<lparr> p_address_label = Some ''Work'', p_full_address = None, p_landmark = None,
            p_panchayat_id = None, p_ward_number = None, p_is_default = None \<rparr>"
  let ?w = "\<lparr> rows = [example_address ''b1'' ''u2'' False 1], calls = [] \<rparr>"
  have foreign: "\<forall>r\<in>set (rows ?w). \<not> (addr_id r = ''b1'' \<and> user_id r = ''u1'')"
    by (simp add: example_address_def)
  have "\<not> truthy_bool (p_is_default ?inp)"
    by (simp add: truthy_bool_def)
  with updateAddress_not_owned [OF foreign, of ?inp None None 9]
  have "fst (updateAddress (Some ''u1'') ''b1'' ?inp None None 9 ?w) = Inl NoSingleRow"
    and "rows (snd (updateAddress (Some ''u1'') ''b1'' ?inp None None 9 ?w)) = rows ?w"
    by blast+
  then show ?thesis
    by simp
qed

section \<open>The delete mutation\<close>

text \<open>
  Claim C8. A delete request that reaches the store succeeds whether or not the id
  resolves to a row of the owner: on an absent id it is a success that leaves the table
  as it was, and deleting the same id twice succeeds both times, the second delete
  leaving the rows as the first left them.
\<close>

theorem deleteAddress_idempotent:
  "((\<forall>r\<in>set (rows w). \<not> (addr_id r = aid \<and> user_id r = uid)) \<longrightarrow>
      fst (deleteAddress (Some uid) aid None w) = Inr () \<and>
      rows (snd (deleteAddress (Some uid) aid None w)) = rows w) \<and>
   fst (deleteAddress (Some uid) aid None w) = Inr () \<and>
   fst (deleteAddress (Some uid) aid None (snd (deleteAddress (Some uid) aid None w))) = Inr () \<and>
   rows (snd (deleteAddress (Some uid) aid None (snd (deleteAddress (Some uid) aid None w))))
     = rows (snd (deleteAddress (Some uid) aid None w))"
proof -
  have "filter (\<lambda>r. \<not> (addr_id r = aid \<and> user_id r = uid)) rs = rs"
    if "\<forall>r\<in>set rs. \<not> (addr_id r = aid \<and> user_id r = uid)" for rs :: "CustomerAddress list"
    using that by (simp add: filter_id_conv)
  then show ?thesis
    by (simp add: deleteAddress_def remote_delete_def)
qed

theorem deleteAddress_idempotent_witness:
  "fst (deleteAddress (Some ''u1'') ''gone'' None
          \<lparr> rows = [example_address ''a'' ''u1'' True 1], calls = [] \<rparr>) = Inr () \<and>
   rows (snd (deleteAddress (Some ''u1'') ''gone'' None
          \<lparr> rows = [example_address ''a'' ''u1'' True 1], calls = [] \<rparr>))
     = [example_address ''a'' ''u1'' True 1]"
proof -
  let ?w = "\<lparr> rows = [example_address ''a'' ''u1'' True 1], calls = [] \<rparr>"
  have absent: "\<forall>r\<in>set (rows ?w). \<not> (addr_id r = ''gone'' \<and> user_id r = ''u1'')"
    by (simp add: example_address_def)
  with deleteAddress_idempotent [of ?w "''gone''" "''u1''"]
  have "fst (deleteAddress (Some ''u1'') ''gone'' None ?w) = Inr ()"
    and "rows (snd (deleteAddress (Some ''u1'') ''gone'' None ?w)) = rows ?w"
    by blast+
  then show ?thesis
    by simp
qed

section \<open>The list query\<close>

lemma order_key_le_iff:
  "order_key a \<le> order_key b \<longleftrightarrow> default_first_then_newest a b"
  by (auto simp add: order_key_def default_first_then_newest_def less_eq_prod_def)

lemma sorted_wrt_sort_key_order:
  "sorted_wrt default_first_then_newest (sort_key order_key rs)"
proof -
  have "sorted (map order_key (sort_key order_key rs))"
    by (rule sorted_sort_key)
  then have "sorted_wrt (\<lambda>a b. order_key a \<le> order_key b) (sort_key order_key rs)"
    by (simp add: sorted_map)
  then show ?thesis
    by (simp add: order_key_le_iff [abs_def])
qed

text \<open>
  Claim C3. For a resolved owner the list query, when the store answers it, returns
  exactly that owner's rows, default-flagged rows first and then by creation time
  descending, and changes no row.
\<close>

theorem listAddresses_order:
  "\<exists>xs. fst (listAddresses (Some uid) None w) = Inr xs \<and>
     mset xs = mset (filter (\<lambda>r. user_id r = uid) (rows w)) \<and>
     sorted_wrt default_first_then_newest xs \<and>
     rows (snd (listAddresses (Some uid) None w)) = rows w"
  by (simp add: listAddresses_def remote_select_def sorted_wrt_sort_key_order)

text \<open>
  The scenario of the specification: the owner has A (default, created at 1) and B
  (created at 2); after \<^verbatim>\<open>setDefault(B)\<close> the list is B, A.
\<close>

theorem listAddresses_order_witness:
  "fst (listAddresses (Some ''u1'') None (snd (setDefaultAddress (Some ''u1'') ''B'' None None 3
          \<lparr> rows = [example_address ''A'' ''u1'' True 1, example_address ''B'' ''u1'' False 2],
            calls = [] \<rparr>)))
     = Inr [(example_address ''B'' ''u1'' True 2)\<lparr>updated_at := 3\<rparr>, example_address ''A'' ''u1'' False 1] \<and>
   sorted_wrt default_first_then_newest
     [(example_address ''B'' ''u1'' True 2)\<lparr>updated_at := 3\<rparr>, example_address ''A'' ''u1'' False 1]"
proof -
  let ?w = "snd (setDefaultAddress (Some ''u1'') ''B'' None None 3
          \<lparr> rows = [example_address ''A'' ''u1'' True 1, example_address ''B'' ''u1'' False 2],
            calls = [] \<rparr>)"
  have listed: "fst (listAddresses (Some ''u1'') None ?w)
      = Inr [(example_address ''B'' ''u1'' True 2)\<lparr>updated_at := 3\<rparr>, example_address ''A'' ''u1'' False 1]"
    by (simp add: listAddresses_def remote_select_def setDefaultAddress_def remote_update_def
        example_address_def clear_default_def set_default_patch_def order_key_def Let_def
        less_eq_prod_def)
  obtain xs where "fst (listAddresses (Some ''u1'') None ?w) = Inr xs"
    and "sorted_wrt default_first_then_newest xs"
    using listAddresses_order [of "''u1''" ?w] by blast
  with listed show ?thesis
    by simp
qed

section \<open>The check of the full address\<close>

lemma trim_empty_iff: "trim s = [] \<longleftrightarrow> whitespace_only s"
proof
  assume "whitespace_only s"
  then show "trim s = []"
    by (rule trim_whitespace_only)
next
  assume "trim s = []"
  then have "dropWhile js_whitespace (rev (dropWhile js_whitespace s)) = []"
    by (simp add: trim_def)
  then have rest_blank: "\<forall>c\<in>set (dropWhile js_whitespace s). js_whitespace c"
    by (simp add: dropWhile_eq_Nil_conv)
  have "dropWhile js_whitespace s = []"
  proof (rule ccontr)
    assume "dropWhile js_whitespace s \<noteq> []"
    then have "\<not> js_whitespace (hd (dropWhile js_whitespace s))"
      and "hd (dropWhile js_whitespace s) \<in> set (dropWhile js_whitespace s)"
      by (simp_all add: hd_dropWhile)
    with rest_blank show False
      by blast
  qed
  then show "whitespace_only s"
    by (simp add: whitespace_only_def list_all_iff dropWhile_eq_Nil_conv)
qed

text \<open>
  Claim C2, as the code has it. The check of the full address is made by the form's save
  handler, not by the create mutation. When the full address is empty or consists of
  white space only, the handler shows the notification that an address is required and
  returns; no mutation is started, so no request is issued (the log of calls and the
  rows are as they were), whether an address is being added or edited. The create
  mutation applies no check to the full address: for a signed-in user and every input
  it issues its requests, the insert last, and when the insert goes through it answers
  with the stored row, whose full address is the input's.
\<close>

theorem handleSaveAddress_rejects_blank:
  "(whitespace_only (fullAddress form) \<longrightarrow>
      handleSaveAddress user form f_clear f_write new_id now w = (AddressRequired, w)) \<and>
   fst (createAddress (Some uid) input f_clear None new_id now w)
     = Inr (insert_row uid new_id now input) \<and>
   full_address (insert_row uid new_id now input) = in_full_address input \<and>
   insert_row uid new_id now input
     \<in> set (rows (snd (createAddress (Some uid) input f_clear None new_id now w))) \<and>
   calls (snd (createAddress (Some uid) input f_clear f_insert new_id now w))
     = calls w @ (if truthy_bool (in_is_default input) then [CallClearDefaults uid None] else [])
         @ [CallInsert uid]"
proof (intro conjI impI)
  assume "whitespace_only (fullAddress form)"
  then show "handleSaveAddress user form f_clear f_write new_id now w = (AddressRequired, w)"
    by (simp add: handleSaveAddress_def trim_whitespace_only)
next
  show "fst (createAddress (Some uid) input f_clear None new_id now w)
      = Inr (insert_row uid new_id now input)"
    by (simp add: createAddress_def remote_insert_single_def Let_def)
  show "full_address (insert_row uid new_id now input) = in_full_address input"
    by (simp add: insert_row_def)
  show "insert_row uid new_id now input
      \<in> set (rows (snd (createAddress (Some uid) input f_clear None new_id now w)))"
    by (simp add: createAddress_def remote_insert_single_def Let_def)
  show "calls (snd (createAddress (Some uid) input f_clear f_insert new_id now w))
      = calls w @ (if truthy_bool (in_is_default input) then [CallClearDefaults uid None] else [])
          @ [CallInsert uid]"
    by (simp add: createAddress_def remote_insert_single_def Let_def split: option.split)
qed

text \<open>
  A full address of an ideographic space, an em space, a byte order mark, a line
  separator and a space is rejected by the handler; the same address given to the
  create mutation is inserted.
\<close>

theorem handleSaveAddress_rejects_blank_witness:
  "handleSaveAddress (Some ''u1'')
     \<lparr> addressLabel = ''Home'', fullAddress = [12288, 8195, 65279, 8232, 32], landmarkText = [],
       isDefault = True, editingAddress = None, selectedPanchayatId = None,
       selectedWardNumber = None \<rparr> None None ''a1'' 7 \<lparr> rows = [], calls = [] \<rparr>
     = (AddressRequired, \<lparr> rows = [], calls = [] \<rparr>) \<and>
   fst (createAddress (Some ''u1'')
          \<lparr> in_address_label = None, in_full_address = [12288, 8195, 65279, 8232, 32],
            in_landmark = None, in_panchayat_id = None, in_ward_number = None,
            in_is_default = Some True \<rparr>
          None None ''a1'' 7 \<lparr> rows = [], calls = [] \<rparr>)
     = Inr ((example_address ''a1'' ''u1'' True 7)\<lparr>full_address := [12288, 8195, 65279, 8232, 32]\<rparr>) \<and>
   calls (snd (createAddress (Some ''u1'')
          \<lparr> in_address_label = None, in_full_address = [12288, 8195, 65279, 8232, 32],
            in_landmark = None, in_panchayat_id = None, in_ward_number = None,
            in_is_default = Some True \<rparr>
          None None ''a1'' 7 \<lparr> rows = [], calls = [] \<rparr>))
     = [CallClearDefaults ''u1'' None, CallInsert ''u1'']"
proof -
  let ?form = "\<lparr> addressLabel = ''Home'', fullAddress = [12288, 8195, 65279, 8232, 32],
       landmarkText = [], isDefault = True, editingAddress = None, selectedPanchayatId = None,
       selectedWardNumber = None \<rparr>"
  let ?input = "\<lparr> in_address_label = None, in_full_address = [12288, 8195, 65279, 8232, 32],
       in_landmark = None, in_panchayat_id = None, in_ward_number = None,
       in_is_default = Some True \<rparr>"
  let ?w = "\<lparr> rows = [], calls = [] \<rparr>"
  note spec = handleSaveAddress_rejects_blank
    [of ?form "Some ''u1''" None None "''a1''" 7 ?w "''u1''" ?input None]
  have blank: "whitespace_only (fullAddress ?form)"
    by (simp add: whitespace_only_def js_whitespace_def)
  with spec have rejected:
    "handleSaveAddress (Some ''u1'') ?form None None ''a1'' 7 ?w = (AddressRequired, ?w)"
    by blast
  have row: "insert_row ''u1'' ''a1'' 7 ?input
      = (example_address ''a1'' ''u1'' True 7)\<lparr>full_address := [12288, 8195, 65279, 8232, 32]\<rparr>"
    by (simp add: insert_row_def example_address_def truthy_bool_def or_string_def
        or_null_string_def or_null_number_def)
  from spec have "fst (createAddress (Some ''u1'') ?input None None ''a1'' 7 ?w)
      = Inr (insert_row ''u1'' ''a1'' 7 ?input)"
    by blast
  with row have inserted: "fst (createAddress (Some ''u1'') ?input None None ''a1'' 7 ?w)
      = Inr ((example_address ''a1'' ''u1'' True 7)\<lparr>full_address := [12288, 8195, 65279, 8232, 32]\<rparr>)"
    by simp
  from spec have "calls (snd (createAddress (Some ''u1'') ?input None None ''a1'' 7 ?w))
      = calls ?w @ (if truthy_bool (in_is_default ?input) then [CallClearDefaults ''u1'' None] else [])
          @ [CallInsert ''u1'']"
    by blast
  then have issued: "calls (snd (createAddress (Some ''u1'') ?input None None ''a1'' 7 ?w))
      = [CallClearDefaults ''u1'' None, CallInsert ''u1'']"
    by (simp add: truthy_bool_def)
  from rejected inserted issued show ?thesis
    by blast
qed

text \<open>
  The create mutation itself accepts a blank full address: called with a single space
  and the default flag it issues the clear-defaults request and the insert and answers
  with the inserted row; called with the empty string it issues the insert.
\<close>

theorem createAddress_accepts_blank_address:
  "whitespace_only [32] \<and> whitespace_only [] \<and>
   fst (createAddress (Some ''u1'')
          \<lparr> in_address_label = None, in_full_address = [32], in_landmark = None,
            in_panchayat_id = None, in_ward_number = None, in_is_default = Some True \<rparr>
          None None ''a1'' 7 \<lparr> rows = [], calls = [] \<rparr>)
     = Inr ((example_address ''a1'' ''u1'' True 7)\<lparr>full_address := [32]\<rparr>) \<and>
   calls (snd (createAddress (Some ''u1'')
          \<lparr> in_address_label = None, in_full_address = [32], in_landmark = None,
            in_panchayat_id = None, in_ward_number = None, in_is_default = Some True \<rparr>
          None None ''a1'' 7 \<lparr> rows = [], calls = [] \<rparr>))
     = [CallClearDefaults ''u1'' None, CallInsert ''u1''] \<and>
   fst (createAddress (Some ''u1'')
          \<lparr> in_address_label = None, in_full_address = [], in_landmark = None,
            in_panchayat_id = None, in_ward_number = None, in_is_default = None \<rparr>
          None None ''a2'' 8 \<lparr> rows = [], calls = [] \<rparr>)
     = Inr ((example_address ''a2'' ''u1'' False 8)\<lparr>full_address := []\<rparr>) \<and>
   calls (snd (createAddress (Some ''u1'')
          \<lparr> in_address_label = None, in_full_address = [], in_landmark = None,
            in_panchayat_id = None, in_ward_number = None, in_is_default = None \<rparr>
          None None ''a2'' 8 \<lparr> rows = [], calls = [] \<rparr>))
     = [CallInsert ''u1'']"
  by (simp add: whitespace_only_def js_whitespace_def createAddress_def remote_update_def
      remote_insert_single_def insert_row_def example_address_def truthy_bool_def or_string_def
      or_null_string_def or_null_number_def Let_def)

section \<open>At most one default per owner\<close>

text \<open>
  When the clear-defaults request goes through, each of the three mutations that
  succeeds keeps the invariant for every owner. The set-default mutation relies on the
  primary key: no two rows share an id.
\<close>

lemma length_filter_map_le:
  assumes "\<forall>x\<in>set xs. P (g x) \<longrightarrow> Q x"
  shows "length (filter P (map g xs)) \<le> length (filter Q xs)"
  using assms by (induction xs) auto

lemma length_filter_distinct_key:
  assumes "distinct (map k xs)"
  shows "length (filter (\<lambda>x. k x = a \<and> R x) xs) \<le> 1"
  using assms
proof (induction xs)
  case Nil
  then show ?case by simp
next
  case (Cons x xs)
  show ?case
  proof (cases "k x = a")
    case True
    have "k y \<noteq> a" if "y \<in> set xs" for y
    proof
      assume "k y = a"
      with that True have "k x \<in> set (map k xs)"
        by (metis image_eqI set_map)
      with Cons.prems show False
        by simp
    qed
    then have "filter (\<lambda>x. k x = a \<and> R x) xs = []"
      by (simp add: filter_empty_conv)
    then show ?thesis by simp
  next
    case False
    with Cons show ?thesis by simp
  qed
qed

lemma cleared_owner_has_no_default:
  "filter (\<lambda>r. user_id r = uid \<and> is_default r)
     (map (\<lambda>r. if user_id r = uid then clear_default r else r) rs) = []"
  by (induction rs) (simp_all add: clear_default_def)

lemma createAddress_keeps_single_default:
  assumes inv: "at_most_one_default u (rows w)"
    and ok: "fst (createAddress (Some uid) input None f_insert new_id now w) = Inr r"
  shows "at_most_one_default u (rows (snd (createAddress (Some uid) input None f_insert new_id now w)))"
proof -
  from ok have ins: "f_insert = None"
    by (cases f_insert) (simp_all add: createAddress_def remote_insert_single_def Let_def)
  show ?thesis
  proof (cases "truthy_bool (in_is_default input)")
    case False
    with inv ins show ?thesis
      by (simp add: createAddress_def remote_insert_single_def Let_def insert_row_def
          at_most_one_default_def)
  next
    case True
    let ?g = "\<lambda>r. if user_id r = uid then clear_default r else r"
    have rows': "rows (snd (createAddress (Some uid) input None f_insert new_id now w))
        = map ?g (rows w) @ [insert_row uid new_id now input]"
      using True ins
      by (simp add: createAddress_def remote_insert_single_def Let_def rows_remote_update)
    show ?thesis
    proof (cases "u = uid")
      case True
      have "filter (\<lambda>r. user_id r = uid \<and> is_default r) (map ?g (rows w)) = []"
        by (rule cleared_owner_has_no_default)
      with True rows' show ?thesis
        by (simp add: at_most_one_default_def)
    next
      case False
      have "length (filter (\<lambda>r. user_id r = u \<and> is_default r) (map ?g (rows w)))
          \<le> length (filter (\<lambda>r. user_id r = u \<and> is_default r) (rows w))"
        by (rule length_filter_map_le) (simp add: clear_default_def)
      with False inv rows' show ?thesis
        by (simp add: at_most_one_default_def insert_row_def)
    qed
  qed
qed

lemma updateAddress_keeps_single_default:
  assumes inv: "at_most_one_default u (rows w)"
    and ok: "fst (updateAddress (Some uid) aid input None f_update now w) = Inr r"
  shows "at_most_one_default u (rows (snd (updateAddress (Some uid) aid input None f_update now w)))"
proof -
  let ?target = "\<lambda>r. addr_id r = aid \<and> user_id r = uid"
  let ?w1 = "updateAddress_clear uid aid input None w"
  let ?g1 = "\<lambda>r. if truthy_bool (p_is_default input) \<and> user_id r = uid \<and> addr_id r \<noteq> aid
                  then clear_default r else r"
  let ?g2 = "\<lambda>r. if ?target r then update_patch input now r else r"
  from ok have upd: "f_update = None"
    by (cases f_update) (simp_all add: updateAddress_def remote_update_single_def)
  from ok upd obtain r0 where one1: "filter ?target (rows ?w1) = [r0]"
    by (auto simp add: updateAddress_def remote_update_single_def split: list.splits)
  then have one: "filter ?target (rows w) = [r0]"
    by (simp add: filter_target_updateAddress_clear)
  have rows1: "rows ?w1 = map ?g1 (rows w)"
    by (simp add: updateAddress_clear_def rows_remote_update)
  have rows': "rows (snd (updateAddress (Some uid) aid input None f_update now w))
      = map (?g2 \<circ> ?g1) (rows w)"
    using upd one1 rows1 by (simp add: updateAddress_def remote_update_single_def)
  show ?thesis
  proof (cases "truthy_bool (p_is_default input) \<and> u = uid")
    case True
    have "length (filter (\<lambda>r. user_id r = u \<and> is_default r) (map (?g2 \<circ> ?g1) (rows w)))
        \<le> length (filter ?target (rows w))"
      using True by (intro length_filter_map_le) (auto simp add: clear_default_def)
    with one rows' show ?thesis
      by (simp add: at_most_one_default_def)
  next
    case False
    have "length (filter (\<lambda>r. user_id r = u \<and> is_default r) (map (?g2 \<circ> ?g1) (rows w)))
        \<le> length (filter (\<lambda>r. user_id r = u \<and> is_default r) (rows w))"
      using False
      by (intro length_filter_map_le)
        (auto simp add: clear_default_def update_patch_def truthy_bool_def split: option.splits)
    with inv rows' show ?thesis
      by (simp add: at_most_one_default_def)
  qed
qed

lemma rows_setDefaultAddress:
  "rows (snd (setDefaultAddress (Some uid) aid None None now w)) =
     map (\<lambda>r. if user_id r = uid
               then (if addr_id r = aid then r\<lparr>is_default := True, updated_at := now\<rparr>
                     else r\<lparr>is_default := False\<rparr>)
               else r) (rows w)"
  by (simp add: setDefaultAddress_def remote_update_def Let_def clear_default_def
      set_default_patch_def)

lemma setDefaultAddress_keeps_single_default:
  assumes key: "distinct (map addr_id (rows w))"
    and inv: "at_most_one_default u (rows w)"
    and ok: "fst (setDefaultAddress (Some uid) aid None f_set now w) = Inr ()"
  shows "at_most_one_default u (rows (snd (setDefaultAddress (Some uid) aid None f_set now w)))"
proof -
  from ok have f_set: "f_set = None"
    by (cases f_set) (simp_all add: setDefaultAddress_def remote_update_def Let_def)
  let ?g = "\<lambda>r. if user_id r = uid
               then (if addr_id r = aid then r\<lparr>is_default := True, updated_at := now\<rparr>
                     else r\<lparr>is_default := False\<rparr>)
               else r"
  show ?thesis
  proof (cases "u = uid")
    case True
    have "length (filter (\<lambda>r. user_id r = u \<and> is_default r) (map ?g (rows w)))
        \<le> length (filter (\<lambda>r. addr_id r = aid \<and> user_id r = uid) (rows w))"
      using True by (intro length_filter_map_le) auto
    also have "\<dots> \<le> 1"
      using key by (rule length_filter_distinct_key)
    finally show ?thesis
      using f_set by (simp add: at_most_one_default_def rows_setDefaultAddress)
  next
    case False
    have "length (filter (\<lambda>r. user_id r = u \<and> is_default r) (map ?g (rows w)))
        \<le> length (filter (\<lambda>r. user_id r = u \<and> is_default r) (rows w))"
      using False by (intro length_filter_map_le) auto
    with inv f_set show ?thesis
      by (simp add: at_most_one_default_def rows_setDefaultAddress)
  qed
qed

text \<open>
  Claim C1. After a successful create, update or set-default, at most one address of
  the owner is flagged as the default. The create mutation breaks this when its
  clear-defaults request fails: the failure is dropped, the insert goes through, the
  mutation answers with the new row, and the owner, who had one default address before
  the call, has two after it.
\<close>

theorem createAddress_failed_clear_two_defaults:
  "at_most_one_default ''u1'' [example_address ''A'' ''u1'' True 1] \<and>
   fst (createAddress (Some ''u1'')
          \<lparr> in_address_label = None, in_full_address = code_units ''12 Palm Rd'', in_landmark = None,
            in_panchayat_id = None, in_ward_number = None, in_is_default = Some True \<rparr>
          (Some ''Failed to fetch'') None ''B'' 2
          \<lparr> rows = [example_address ''A'' ''u1'' True 1], calls = [] \<rparr>)
     = Inr (example_address ''B'' ''u1'' True 2) \<and>
   rows (snd (createAddress (Some ''u1'')
          \<lparr> in_address_label = None, in_full_address = code_units ''12 Palm Rd'', in_landmark = None,
            in_panchayat_id = None, in_ward_number = None, in_is_default = Some True \<rparr>
          (Some ''Failed to fetch'') None ''B'' 2
          \<lparr> rows = [example_address ''A'' ''u1'' True 1], calls = [] \<rparr>))
     = [example_address ''A'' ''u1'' True 1, example_address ''B'' ''u1'' True 2] \<and>
   \<not> at_most_one_default ''u1''
       (rows (snd (createAddress (Some ''u1'')
          \<lparr> in_address_label = None, in_full_address = code_units ''12 Palm Rd'', in_landmark = None,
            in_panchayat_id = None, in_ward_number = None, in_is_default = Some True \<rparr>
          (Some ''Failed to fetch'') None ''B'' 2
          \<lparr> rows = [example_address ''A'' ''u1'' True 1], calls = [] \<rparr>)))"
  by (simp add: at_most_one_default_def createAddress_def remote_update_def
      remote_insert_single_def insert_row_def example_address_def truthy_bool_def or_string_def
      or_null_string_def or_null_number_def Let_def)

section \<open>The set-default mutation\<close>

lemma calls_setDefaultAddress:
  "calls (snd (setDefaultAddress (Some uid) aid f_clear f_set now w)) =
     calls w @ [CallClearDefaults uid None, CallUpdateRow aid uid]"
  by (simp add: setDefaultAddress_def remote_update_def Let_def split: option.split)

text \<open>
  Claim C4. After a successful set-default the chosen address is the default with a
  refreshed update time and every other address of the owner is not the default; the
  clear-defaults request is issued before the request that sets the row. The order of
  the two requests is as claimed, but when the first one fails the mutation still
  succeeds and the former default address A stays flagged next to B.
\<close>

theorem setDefaultAddress_failed_clear_keeps_old_default:
  "fst (setDefaultAddress (Some ''u1'') ''B'' (Some ''Failed to fetch'') None 3
          \<lparr> rows = [example_address ''A'' ''u1'' True 1, example_address ''B'' ''u1'' False 2],
            calls = [] \<rparr>) = Inr () \<and>
   rows (snd (setDefaultAddress (Some ''u1'') ''B'' (Some ''Failed to fetch'') None 3
          \<lparr> rows = [example_address ''A'' ''u1'' True 1, example_address ''B'' ''u1'' False 2],
            calls = [] \<rparr>))
     = [example_address ''A'' ''u1'' True 1, (example_address ''B'' ''u1'' True 2)\<lparr>updated_at := 3\<rparr>] \<and>
   is_default (rows (snd (setDefaultAddress (Some ''u1'') ''B'' (Some ''Failed to fetch'') None 3
          \<lparr> rows = [example_address ''A'' ''u1'' True 1, example_address ''B'' ''u1'' False 2],
            calls = [] \<rparr>)) ! 0) \<and>
   calls (snd (setDefaultAddress (Some ''u1'') ''B'' (Some ''Failed to fetch'') None 3
          \<lparr> rows = [example_address ''A'' ''u1'' True 1, example_address ''B'' ''u1'' False 2],
            calls = [] \<rparr>))
     = [CallClearDefaults ''u1'' None, CallUpdateRow ''B'' ''u1'']"
  by (simp add: setDefaultAddress_def remote_update_def example_address_def
      set_default_patch_def Let_def)

end
